theory Spec2Isabelle
  imports Main
begin

section \<open>Errors and life cycle\<close>

text \<open>
  Go's \<open>error\<close> values. A function returning \<open>error\<close> alone is modelled with the result
  type \<open>error option\<close> (\<open>None\<close> is \<open>nil\<close>); a function returning a value and an error is
  modelled with \<open>error + 'a\<close>. \<open>Annotated\<close> is what \<open>errors.DeferredAnnotatef\<close> wraps
  around a non-nil error, \<open>Traced\<close> what \<open>errors.Trace\<close> does.
\<close>

datatype error =
    NotFound string
  | NotProvisioned string
  | NotDead string
  | StorageUnavailable string
  | ProviderError string
  | Panic string
  | Annotated string error
  | Traced error
  | Validation string
  | Unauthorized
  | StillAlive string

datatype life = Alive | Dying | Dead

section \<open>The addresser worker (worker/addresser/worker.go)\<close>

subsection \<open>Data\<close>

record ipaddress =
  Value :: string
  MachineId :: string
  SubnetId :: string
  Life :: life

record machine =
  machineId :: string
  instanceId :: "string option"

text \<open>
  One call of the provider's \<open>ReleaseAddress(instance.Id, network.Id, network.Address)\<close>:
  the three arguments, as the dummy provider's \<open>OpReleaseAddress\<close> records them.
\<close>

type_synonym OpReleaseAddress = "string \<times> string \<times> string"

text \<open>The methods of \<open>stateAddresser\<close> and of the entities it returns that reach the store.\<close>

datatype storage_call =
  CallDeadIPAddresses | CallIPAddress | CallMachine | CallInstanceId | CallRemove

text \<open>
  The world the handler acts on: the store behind \<open>stateAddresser\<close> (IP addresses,
  machines, and the calls that currently fail), the number of watchers handed out, the
  provider's record of \<open>ReleaseAddress\<close> calls with their outcome, the handler's \<open>dying\<close>
  channel (closed or not), and what the logger received.
\<close>

record world =
  ipaddresses :: "ipaddress list"
  machines :: "machine list"
  faults :: "storage_call list"
  watchers :: nat
  ops :: "(OpReleaseAddress \<times> error option) list"
  dying :: bool
  warnings :: "error list"

text \<open>
  The \<open>releaser\<close> interface: given the provider's history and the call, \<open>None\<close> for
  success or the error.
\<close>

type_synonym releaser = "(OpReleaseAddress \<times> error option) list \<Rightarrow> OpReleaseAddress \<Rightarrow> error option"

subsection \<open>The storage collaborator\<close>

text \<open>
  The package \<open>state\<close> behind the \<open>stateAddresser\<close> interface is not among the sources
  at hand; the handler only calls it. Section 6 of the specification lists what the
  storage collaborator offers: fetch-by-id, fetch-all-matching-terminal-condition,
  watch-by-collection and remove (fails unless \<open>Dead\<close>); section 7 says that a call may
  fail with \<open>StorageUnavailable\<close>.
\<close>

text \<open>
  Modelled from the spec: storage failure (\<open>StorageUnavailable\<close>, section 7). A call named
  in \<open>faults\<close> fails.
\<close>

definition unavailable :: "world \<Rightarrow> storage_call \<Rightarrow> bool" where
  "unavailable st c = (c \<in> set (faults st))"

text \<open>
  Modelled from the spec: \<open>State.IPAddress\<close>, fetch-by-id of section 6; an id that the store
  does not hold is "not found".
\<close>

definition IPAddress :: "world \<Rightarrow> string \<Rightarrow> error + ipaddress" where
  "IPAddress st ident =
     (if unavailable st CallIPAddress then Inl (StorageUnavailable ''IPAddress'')
      else case find (\<lambda>a. Value a = ident) (ipaddresses st) of
             None \<Rightarrow> Inl (NotFound (''IP address '' @ ident))
           | Some a \<Rightarrow> Inr a)"

text \<open>Modelled from the spec: \<open>State.Machine\<close>, fetch-by-id of section 6.\<close>

definition Machine :: "world \<Rightarrow> string \<Rightarrow> error + machine" where
  "Machine st ident =
     (if unavailable st CallMachine then Inl (StorageUnavailable ''Machine'')
      else case find (\<lambda>m. machineId m = ident) (machines st) of
             None \<Rightarrow> Inl (NotFound (''machine '' @ ident))
           | Some m \<Rightarrow> Inr m)"

text \<open>
  Modelled from the spec: \<open>Machine.InstanceId\<close>, the provider-assigned instance identifier
  of section 3; a machine that has none is not provisioned (\<open>NotProvisionedError\<close> in the
  facade's tests).
\<close>

definition InstanceId :: "world \<Rightarrow> machine \<Rightarrow> error + string" where
  "InstanceId st m =
     (if unavailable st CallInstanceId then Inl (StorageUnavailable ''InstanceId'')
      else case instanceId m of
             None \<Rightarrow> Inl (NotProvisioned (machineId m))
           | Some i \<Rightarrow> Inr i)"

text \<open>
  Modelled from the spec: \<open>State.DeadIPAddresses\<close>, fetch-all-matching-terminal-condition
  of section 6.
\<close>

definition DeadIPAddresses :: "world \<Rightarrow> error + ipaddress list" where
  "DeadIPAddresses st =
     (if unavailable st CallDeadIPAddresses then Inl (StorageUnavailable ''DeadIPAddresses'')
      else Inr (filter (\<lambda>a. Life a = Dead) (ipaddresses st)))"

text \<open>
  Modelled from the spec: \<open>State.WatchIPAddresses\<close>, watch-by-collection of section 6. It
  returns no error; the watcher is named by its number.
\<close>

definition WatchIPAddresses :: "world \<Rightarrow> nat \<times> world" where
  "WatchIPAddresses st = (watchers st, st\<lparr>watchers := Suc (watchers st)\<rparr>)"

text \<open>
  Modelled from the spec: \<open>IPAddress.Remove\<close>, remove of section 6: it fails unless the
  address is \<open>Dead\<close>, and the address is unresolvable afterwards.
\<close>

definition Remove :: "world \<Rightarrow> ipaddress \<Rightarrow> error + world" where
  "Remove st addr =
     (if unavailable st CallRemove then Inl (StorageUnavailable ''Remove'')
      else if Life addr \<noteq> Dead then Inl (NotDead (Value addr))
      else Inr (st\<lparr>ipaddresses := filter (\<lambda>a. Value a \<noteq> Value addr) (ipaddresses st)\<rparr>))"

subsection \<open>The provider\<close>

definition ReleaseAddress :: "releaser \<Rightarrow> world \<Rightarrow> OpReleaseAddress \<Rightarrow> error option \<times> world" where
  "ReleaseAddress rel st c =
     (let r = rel (ops st) c in (r, st\<lparr>ops := ops st @ [(c, r)]\<rparr>))"

subsection \<open>The handler\<close>

text \<open>
  \<open>removeIPAddress\<close>, lines 88 to 110. The deferred annotation wraps every non-nil
  error that the function returns.
\<close>

definition annotate :: "error \<Rightarrow> error" where
  "annotate e = Annotated ''failed to release address'' e"

definition removeIPAddress :: "releaser \<Rightarrow> world \<Rightarrow> ipaddress \<Rightarrow> error option \<times> world" where
  "removeIPAddress rel st addr =
     (case Machine st (MachineId addr) of
        Inl e \<Rightarrow> (Some (annotate e), st)
      | Inr m \<Rightarrow>
          (case InstanceId st m of
             Inl e \<Rightarrow> (Some (annotate e), st)
           | Inr instId \<Rightarrow>
               (case ReleaseAddress rel st (instId, SubnetId addr, Value addr) of
                  (Some e, st1) \<Rightarrow> (Some (annotate e), st1)
                | (None, st1) \<Rightarrow>
                    (case Remove st1 addr of
                       Inl e \<Rightarrow> (Some (annotate e), st1)
                     | Inr st2 \<Rightarrow> (None, st2)))))"

text \<open>\<open>Handle\<close>, lines 71 to 86: the loop over the ids of one batch.\<close>

fun Handle :: "releaser \<Rightarrow> world \<Rightarrow> string list \<Rightarrow> error option \<times> world" where
  "Handle rel st [] = (None, st)"
| "Handle rel st (ident # ids) =
     (case IPAddress st ident of
        Inl e \<Rightarrow> (Some e, st)
      | Inr addr \<Rightarrow>
          if Life addr \<noteq> Dead then Handle rel st ids
          else (case removeIPAddress rel st addr of
                  (Some e, st1) \<Rightarrow> (Some e, st1)
                | (None, st1) \<Rightarrow> Handle rel st1 ids))"

text \<open>
  \<open>SetUp\<close>, lines 112 to 136. The function returns the watcher (never \<open>nil\<close>, hence
  \<open>Some\<close>) and the error; when it gets as far as line 122 it has also started a goroutine
  that owns the queue of dead addresses, returned here as the third component.
\<close>

definition SetUp :: "world \<Rightarrow> (nat option \<times> error option \<times> ipaddress list option) \<times> world" where
  "SetUp st =
     (let (w, st1) = WatchIPAddresses st in
      case DeadIPAddresses st1 of
        Inl e \<Rightarrow> ((Some w, Some (Traced e), None), st1)
      | Inr dead \<Rightarrow> ((Some w, None, Some dead), st1))"

text \<open>
  The goroutine of lines 122 to 134: a single \<open>select\<close>, not inside a loop. The receive
  from \<open>deadQueue\<close> is ready when the queue is not empty, the receive from \<open>dying\<close> when
  that channel is closed; when both are ready Go chooses one of them, here by \<open>pick\<close>
  (\<open>True\<close> for \<open>dying\<close>); when neither is ready the \<open>default\<close> case returns. An error of
  \<open>removeIPAddress\<close> goes to the logger and nowhere else.
\<close>

definition goroutine :: "releaser \<Rightarrow> bool \<Rightarrow> world \<Rightarrow> ipaddress list \<Rightarrow> world" where
  "goroutine rel pick st deadQueue =
     (case deadQueue of
        [] \<Rightarrow> st
      | addr # rest \<Rightarrow>
          if dying st \<and> pick then st
          else (case removeIPAddress rel st addr of
                  (Some e, st1) \<Rightarrow> st1\<lparr>warnings := warnings st1 @ [e]\<rparr>
                | (None, st1) \<Rightarrow> st1))"

text \<open>\<open>SetUp\<close> followed by the run of the goroutine it started, if any.\<close>

definition start :: "releaser \<Rightarrow> bool \<Rightarrow> world \<Rightarrow> (nat option \<times> error option) \<times> world" where
  "start rel pick st =
     (case SetUp st of
        ((w, err, None), st1) \<Rightarrow> ((w, err), st1)
      | ((w, err, Some deadQueue), st1) \<Rightarrow> ((w, err), goroutine rel pick st1 deadQueue))"

text \<open>\<open>TearDown\<close>, lines 138 to 141. Closing a closed channel panics.\<close>

definition TearDown :: "world \<Rightarrow> error option \<times> world" where
  "TearDown st =
     (if dying st then (Some (Panic ''close of closed channel''), st)
      else (None, st\<lparr>dying := True\<rparr>))"



subsection \<open>The scenario of the worker's tests\<close>

text \<open>
  \<open>SetUpTest\<close> and \<open>createAddresses\<close> of the worker's test suite: one machine provisioned
  as instance \<open>foo\<close>, four addresses on subnet \<open>foobar\<close> allocated to it, those with an odd
  index dead.
\<close>

definition testAddress :: "string \<Rightarrow> life \<Rightarrow> ipaddress" where
  "testAddress v l = \<lparr>Value = v, MachineId = ''0'', SubnetId = ''foobar'', Life = l\<rparr>"

definition testWorld :: world where
  "testWorld =
     \<lparr>ipaddresses = [testAddress ''0.1.2.3'' Alive, testAddress ''0.1.2.4'' Dead,
                     testAddress ''0.1.2.5'' Alive, testAddress ''0.1.2.6'' Dead],
      machines = [\<lparr>machineId = ''0'', instanceId = Some ''foo''\<rparr>],
      faults = [], watchers = 0, ops = [], dying = False, warnings = []\<rparr>"

text \<open>A provider that releases every address, and one that is broken.\<close>

definition working :: releaser where
  "working h c = None"

definition broken :: releaser where
  "broken h c = Some (ProviderError ''dummy.ReleaseAddress is broken'')"

text \<open>A provider that fails for one address value and releases every other.\<close>

definition brokenFor :: "string \<Rightarrow> releaser" where
  "brokenFor v h c =
     (case c of (i, n, a) \<Rightarrow>
        if a = v then Some (ProviderError ''dummy.ReleaseAddress is broken'') else None)"

section \<open>The provisioner facade (state/apiserver/provisioner)\<close>

text \<open>
  Of the facade only the test suite \<open>provisioner_test.go\<close> is among the sources at hand:
  the facade itself, the authorizer, the resource registry (\<open>common.Resources\<close>) and the
  machine operations of the package \<open>state\<close> are not. They are modelled from sections 3,
  4.1, 4.2, 4.4 and 4.5 of the specification, and the model is run on the scenarios of the
  test suite below.
\<close>

subsection \<open>References and entities\<close>

text \<open>
  Modelled from the spec: the typed entity reference of the glossary (kind and id), which
  the missing package \<open>names\<close> parses from a string such as \<open>machine-0\<close>, \<open>unit-foo-0\<close> or
  \<open>service-bar\<close>.
\<close>

datatype kind = MachineKind | UnitKind | ServiceKind

datatype tag = Tag kind string

fun tagKind :: "tag \<Rightarrow> kind" where
  "tagKind (Tag k i) = k"

fun tagId :: "tag \<Rightarrow> string" where
  "tagId (Tag k i) = i"

fun kindName :: "kind \<Rightarrow> string" where
  "kindName MachineKind = ''machine''"
| "kindName UnitKind = ''unit''"
| "kindName ServiceKind = ''service''"

text \<open>
  Modelled from the spec: step 1 of the per-item pipeline of section 4.5, parsing the
  reference; \<open>None\<close> is a malformed reference. The kind is what stands before the first
  dash, the id what stands after it.
\<close>

definition ParseTag :: "string \<Rightarrow> tag option" where
  "ParseTag s =
     (let k = takeWhile (\<lambda>c. c \<noteq> CHR ''-'') s; i = drop (Suc (length k)) s in
      if i = [] then None
      else if k = ''machine'' then Some (Tag MachineKind i)
      else if k = ''unit'' then Some (Tag UnitKind i)
      else if k = ''service'' then Some (Tag ServiceKind i)
      else None)"

text \<open>
  Modelled from the spec: the two ways the missing facade prints a reference, as the
  expected results of the tests show them: \<open>machine-0\<close> in the still-alive error of
  \<open>TestRemove\<close>, \<open>machine 42\<close> in the not-found errors.
\<close>

definition tagString :: "tag \<Rightarrow> string" where
  "tagString t = kindName (tagKind t) @ ''-'' @ tagId t"

definition label :: "tag \<Rightarrow> string" where
  "label t = kindName (tagKind t) @ '' '' @ tagId t"

text \<open>
  Modelled from the spec: the entity of section 3, with its life, its optional parent
  reference and, for a container, its type.
\<close>

record entity =
  entityLife :: life
  parent :: "tag option"
  containerType :: string

text \<open>
  Modelled from the spec: the watcher of section 4.2, as the batches it has produced and
  not yet delivered, the next one first.
\<close>

record watcher =
  pending :: "string list list"

text \<open>
  Modelled from the spec: the resource registry of section 4.4 (\<open>common.Resources\<close>): the
  number of the last handle given out and the live resources under their handles.
\<close>

record registry =
  nextId :: nat
  live :: "(string \<times> watcher) list"

text \<open>Modelled from the spec: what a facade call acts on, the store and the registry.\<close>

record facade =
  entities :: "(tag \<times> entity) list"
  resources :: registry

text \<open>
  Modelled from the spec: the principal of section 3, a machine agent scoped to one entity
  or an environment manager (the \<open>FakeAuthorizer\<close> of the tests with \<open>MachineAgent\<close> and
  \<open>Tag\<close>, or with \<open>Manager\<close>).
\<close>

datatype principal = MachineAgent tag | EnvironManager

subsection \<open>The per-item pipeline\<close>

text \<open>Modelled from the spec: step 2 of the pipeline, resolving against the store.\<close>

definition resolve :: "facade \<Rightarrow> tag \<Rightarrow> entity option" where
  "resolve st t = map_of (entities st) t"

text \<open>Modelled from the spec: the parent reference of the entity that a tag names.\<close>

definition parentOf :: "facade \<Rightarrow> tag \<Rightarrow> tag option" where
  "parentOf st t = (case resolve st t of None \<Rightarrow> None | Some e \<Rightarrow> parent e)"

text \<open>
  Modelled from the spec: step 3 of the pipeline. A machine agent may act on its own
  entity and on the entities whose parent is its own entity, an environment manager on
  any entity without a parent; a unit or service tag is never authorized.
\<close>

fun authorized :: "principal \<Rightarrow> facade \<Rightarrow> tag \<Rightarrow> bool" where
  "authorized (MachineAgent x) st t =
     (tagKind t = MachineKind \<and> (t = x \<or> parentOf st t = Some x))"
| "authorized EnvironManager st t =
     (tagKind t = MachineKind \<and> parentOf st t = None)"

text \<open>
  An operation of step 4: it gets the store, the tag, the resolved entity and the
  operation-specific field of the item, and returns the slot and the store.
\<close>

type_synonym ('b, 'a) operation = "facade \<Rightarrow> tag \<Rightarrow> entity \<Rightarrow> 'b \<Rightarrow> (error + 'a) \<times> facade"

text \<open>
  Modelled from the spec: the per-item pipeline of section 4.5. \<open>Unauthorized\<close> is
  reported before \<open>NotFound\<close>, as \<open>TestLifeAsMachineAgent\<close> expects for \<open>machine-42\<close>.
\<close>

definition perItem ::
  "principal \<Rightarrow> ('b, 'a) operation \<Rightarrow> facade \<Rightarrow> string \<times> 'b \<Rightarrow> (error + 'a) \<times> facade" where
  "perItem p oper st item =
     (case ParseTag (fst item) of
        None \<Rightarrow> (Inl (Validation (fst item)), st)
      | Some t \<Rightarrow>
          if \<not> authorized p st t then (Inl Unauthorized, st)
          else (case resolve st t of
                  None \<Rightarrow> (Inl (NotFound (label t)), st)
                | Some e \<Rightarrow> oper st t e (snd item)))"

text \<open>
  Modelled from the spec: a batched operation of section 4.5, the items handled in input
  order, each on the store that the items before it left.
\<close>

fun bulk ::
  "principal \<Rightarrow> ('b, 'a) operation \<Rightarrow> facade \<Rightarrow> (string \<times> 'b) list \<Rightarrow> (error + 'a) list \<times> facade" where
  "bulk p oper st [] = ([], st)"
| "bulk p oper st (item # items) =
     (case perItem p oper st item of
        (r, st1) \<Rightarrow> (case bulk p oper st1 items of (rs, st2) \<Rightarrow> (r # rs, st2)))"

subsection \<open>The life-cycle operations\<close>

text \<open>Modelled from the spec: the life query of section 4.5.\<close>

definition LifeOp :: "(unit, life) operation" where
  "LifeOp st t e u = (Inr (entityLife e), st)"

text \<open>
  Modelled from the spec: \<open>Destroy\<close> of section 4.1, from \<open>Alive\<close> to \<open>Dying\<close> and nothing
  otherwise.
\<close>

definition DestroyOp :: "(unit, unit) operation" where
  "DestroyOp st t e u =
     (Inr (),
      if entityLife e = Alive
      then st\<lparr>entities :=
                map (\<lambda>(k, v). if k = t then (k, v\<lparr>entityLife := Dying\<rparr>) else (k, v)) (entities st)\<rparr>
      else st)"

text \<open>Modelled from the spec: \<open>EnsureDead\<close> of section 4.1, from any state to \<open>Dead\<close>.\<close>

definition EnsureDeadOp :: "(unit, unit) operation" where
  "EnsureDeadOp st t e u =
     (Inr (),
      st\<lparr>entities :=
           map (\<lambda>(k, v). if k = t then (k, v\<lparr>entityLife := Dead\<rparr>) else (k, v)) (entities st)\<rparr>)"

text \<open>
  Modelled from the spec: \<open>Remove\<close> of section 4.1, which fails with \<open>StillAlive\<close> unless
  the entity is \<open>Dead\<close> and otherwise takes the entity out of the store.
\<close>

definition RemoveOp :: "(unit, unit) operation" where
  "RemoveOp st t e u =
     (if entityLife e \<noteq> Dead then (Inl (StillAlive (tagString t)), st)
      else (Inr (), st\<lparr>entities := filter (\<lambda>(k, v). k \<noteq> t) (entities st)\<rparr>))"

subsection \<open>The resource registry and the watch operations\<close>

text \<open>
  The decimal numeral of a number: the handles of the tests are \<open>1\<close>, \<open>2\<close> and so on.
\<close>

function decimal :: "nat \<Rightarrow> string" where
  "decimal n =
     (if n < 10 then [''0123456789'' ! n]
      else decimal (n div 10) @ [''0123456789'' ! (n mod 10)])"
  by pat_completeness auto
termination
  by (relation "measure id") auto

declare decimal.simps [simp del]

text \<open>
  Modelled from the spec: \<open>Register\<close>, \<open>Get\<close> and \<open>Count\<close> of section 4.4. The handles
  increase and are not used again.
\<close>

definition Register :: "registry \<Rightarrow> watcher \<Rightarrow> string \<times> registry" where
  "Register reg w =
     (let n = Suc (nextId reg); h = decimal n in
      (h, reg\<lparr>nextId := n, live := live reg @ [(h, w)]\<rparr>))"

definition Get :: "registry \<Rightarrow> string \<Rightarrow> watcher option" where
  "Get reg h = map_of (live reg) h"

definition Count :: "registry \<Rightarrow> nat" where
  "Count reg = length (live reg)"

text \<open>
  Modelled from the spec: one receive from a watcher (section 4.2). A watcher with no
  batch pending delivers nothing (\<open>AssertNoChange\<close> in the tests).
\<close>

definition receive :: "watcher \<Rightarrow> string list option \<times> watcher" where
  "receive w =
     (case pending w of
        [] \<Rightarrow> (None, w)
      | b # bs \<Rightarrow> (Some b, w\<lparr>pending := bs\<rparr>))"

text \<open>
  Modelled from the spec: a new subscription (section 4.2). Its first batch holds the ids
  of the entities in the scope of the watch at subscription time.
\<close>

definition subscribe :: "facade \<Rightarrow> (tag \<Rightarrow> entity \<Rightarrow> bool) \<Rightarrow> watcher" where
  "subscribe st scope =
     \<lparr>pending = [map (\<lambda>(k, v). tagId k) (filter (\<lambda>(k, v). scope k v) (entities st))]\<rparr>"

text \<open>
  Modelled from the spec: what every watch registration does after its authorization
  (section 4.5): take the first batch of the subscription, register the subscription,
  and return the handle with that batch. A watcher that delivers nothing has failed.
\<close>

definition watchAndRegister ::
  "facade \<Rightarrow> watcher \<Rightarrow> (error + string \<times> string list) \<times> facade" where
  "watchAndRegister st w =
     (case receive w of
        (None, w1) \<Rightarrow> (Inl (StorageUnavailable ''watcher''), st)
      | (Some changes, w1) \<Rightarrow>
          (case Register (resources st) w1 of
             (h, reg) \<Rightarrow> (Inr (h, changes), st\<lparr>resources := reg\<rparr>)))"

text \<open>
  Modelled from the spec: \<open>WatchEnvironMachines\<close>, a watch registration with call-level
  authorization; \<open>TestWatchEnvironMachines\<close> expects the ids of the machines without a
  parent, and "permission denied" for a machine agent.
\<close>

definition WatchEnvironMachines ::
  "principal \<Rightarrow> facade \<Rightarrow> (error + string \<times> string list) \<times> facade" where
  "WatchEnvironMachines p st =
     (if p \<noteq> EnvironManager then (Inl Unauthorized, st)
      else watchAndRegister st
             (subscribe st (\<lambda>k v. tagKind k = MachineKind \<and> parent v = None)))"

text \<open>
  Modelled from the spec: \<open>WatchContainers\<close>, which \<open>TestWatchContainers\<close> calls with a list
  of machine tags and container types and which answers with one slot per item: a watch
  registration for the containers of each machine, run through the per-item pipeline.
\<close>

definition WatchContainersOp :: "(string, string \<times> string list) operation" where
  "WatchContainersOp st t e ct =
     watchAndRegister st (subscribe st (\<lambda>k v. parent v = Some t \<and> containerType v = ct))"

definition WatchContainers ::
  "principal \<Rightarrow> facade \<Rightarrow> (string \<times> string) list \<Rightarrow>
   (error + string \<times> string list) list \<times> facade" where
  "WatchContainers p st items = bulk p WatchContainersOp st items"

text \<open>A registered resource from which the next receive delivers nothing.\<close>

definition silent :: "string \<times> watcher \<Rightarrow> bool" where
  "silent hw = (fst (receive (snd hw)) = None)"

subsection \<open>The scenarios of the facade's tests\<close>

text \<open>
  \<open>SetUpTest\<close> creates three machines; \<open>TestLifeAsEnvironManager\<close> and \<open>TestRemove\<close> make
  machine 1 dead. \<open>TestLifeAsMachineAgent\<close> makes machine 0 dead and adds three containers
  to it, the second of them dead.
\<close>

definition testMachine :: "string \<Rightarrow> life \<Rightarrow> tag \<times> entity" where
  "testMachine i l = (Tag MachineKind i, \<lparr>entityLife = l, parent = None, containerType = ''''\<rparr>)"

definition testContainer :: "string \<Rightarrow> life \<Rightarrow> tag \<times> entity" where
  "testContainer i l =
     (Tag MachineKind i,
      \<lparr>entityLife = l, parent = Some (Tag MachineKind ''0''), containerType = ''lxc''\<rparr>)"

definition testFacade :: facade where
  "testFacade =
     \<lparr>entities = [testMachine ''0'' Alive, testMachine ''1'' Dead, testMachine ''2'' Alive],
      resources = \<lparr>nextId = 0, live = []\<rparr>\<rparr>"

definition testFacadeContainers :: facade where
  "testFacadeContainers =
     \<lparr>entities = [testMachine ''0'' Dead, testMachine ''1'' Alive, testMachine ''2'' Alive,
                  testContainer ''0-lxc-0'' Alive, testContainer ''0-lxc-1'' Dead,
                  testContainer ''0-lxc-2'' Alive],
      resources = \<lparr>nextId = 0, live = []\<rparr>\<rparr>"

definition testRefs :: "(string \<times> unit) list" where
  "testRefs = map (\<lambda>r. (r, ()))
     [''machine-0'', ''machine-1'', ''machine-2'', ''machine-42'', ''unit-foo-0'', ''service-bar'']"

definition testAgentRefs :: "(string \<times> unit) list" where
  "testAgentRefs = map (\<lambda>r. (r, ()))
     [''machine-0'', ''machine-1'', ''machine-0-lxc-0'', ''machine-0-lxc-1'', ''machine-0-lxc-2'',
      ''machine-42'', ''unit-foo-0'', ''service-bar'']"

definition testWatchItems :: "(string \<times> string) list" where
  "testWatchItems =
     [(''machine-0'', ''lxc''), (''machine-1'', ''kvm''), (''machine-42'', ''''),
      (''unit-foo-0'', ''''), (''service-bar'', '''')]"

section \<open>Properties of the worker\<close>

lemmas worker_defs =
  start_def SetUp_def goroutine_def removeIPAddress_def WatchIPAddresses_def
  DeadIPAddresses_def IPAddress_def Machine_def InstanceId_def Remove_def
  ReleaseAddress_def unavailable_def annotate_def Let_def
  testWorld_def testAddress_def working_def broken_def brokenFor_def

subsection \<open>What one call of \<open>removeIPAddress\<close> can do\<close>

lemma removeIPAddress_cases:
  "removeIPAddress rel st addr = (r, st') \<Longrightarrow>
     (st' = st \<and> r \<noteq> None)
   \<or> (\<exists>i e. st' = st\<lparr>ops := ops st @ [((i, SubnetId addr, Value addr), Some e)]\<rparr>
        \<and> r = Some (annotate e))
   \<or> (\<exists>i. st' = st\<lparr>ops := ops st @ [((i, SubnetId addr, Value addr), None)]\<rparr>
        \<and> r \<noteq> None)
   \<or> (\<exists>i. st' = st\<lparr>ops := ops st @ [((i, SubnetId addr, Value addr), None)],
                    ipaddresses := filter (\<lambda>a. Value a \<noteq> Value addr) (ipaddresses st)\<rparr>
        \<and> r = None)"
  by (auto simp: removeIPAddress_def ReleaseAddress_def Remove_def Let_def
      split: sum.splits option.splits if_splits prod.splits)

lemma removeIPAddress_at_most_one_call:
  "length (ops (snd (removeIPAddress rel st addr))) \<le> Suc (length (ops st))"
proof -
  obtain r st' where h: "removeIPAddress rel st addr = (r, st')"
    by (cases "removeIPAddress rel st addr")
  from removeIPAddress_cases [OF h] show ?thesis
    unfolding h by auto
qed


lemma Handle_append:
  "Handle rel st (xs @ ys) =
     (case Handle rel st xs of
        (Some e, st1) \<Rightarrow> (Some e, st1)
      | (None, st1) \<Rightarrow> Handle rel st1 ys)"
  by (induction xs arbitrary: st) (auto split: sum.splits option.splits prod.splits)

subsection \<open>Start-up\<close>

text \<open>
  The goroutine that \<open>SetUp\<close> starts takes at most one address from the queue: it makes at
  most one \<open>ReleaseAddress\<close> call, however long the queue is.
\<close>

lemma goroutine_at_most_one_call:
  "length (ops (goroutine rel pick st deadQueue)) \<le> Suc (length (ops st))"
proof (cases deadQueue)
  case Nil
  then show ?thesis by (simp add: goroutine_def)
next
  case (Cons addr rest)
  obtain r st' where h: "removeIPAddress rel st addr = (r, st')"
    by (cases "removeIPAddress rel st addr")
  from removeIPAddress_at_most_one_call [of rel st addr] h
  have "length (ops st') \<le> Suc (length (ops st))" by simp
  then show ?thesis using Cons h
    by (cases r) (simp_all add: goroutine_def)
qed

text \<open>
  Claim C1: when the worker starts, every IP address that is already \<open>Dead\<close> is released
  and removed; the whole backlog is drained, not just one item.

  The code does not do that. In the scenario of \<open>TestWorkerReleasesAlreadyDead\<close> (two dead
  addresses, a provider that works, \<open>dying\<close> open) \<open>SetUp\<close> puts both addresses into the
  queue, and the goroutine releases and removes the first one only: \<open>0.1.2.6\<close> is still in
  the store and still \<open>Dead\<close> when start-up is over, and the provider has seen one call.
\<close>

theorem SetUp_releases_one_of_two_dead:
  "start working False testWorld =
     ((Some 0, None),
      testWorld\<lparr>ipaddresses := [testAddress ''0.1.2.3'' Alive, testAddress ''0.1.2.5'' Alive,
                                testAddress ''0.1.2.6'' Dead],
                watchers := 1,
                ops := [((''foo'', ''foobar'', ''0.1.2.4''), None)]\<rparr>)
   \<and> DeadIPAddresses testWorld
       = Inr [testAddress ''0.1.2.4'' Dead, testAddress ''0.1.2.6'' Dead]
   \<and> DeadIPAddresses (snd (start working False testWorld))
       = Inr [testAddress ''0.1.2.6'' Dead]"
  by (simp add: worker_defs)

text \<open>
  Claim C10: if \<open>DeadIPAddresses\<close> fails inside \<open>SetUp\<close>, \<open>SetUp\<close> returns the watcher it has
  already created together with the error, not a nil watcher: the watcher \<open>w\<close> that
  \<open>WatchIPAddresses\<close> handed out is returned, it is the newest of the watchers handed out,
  the error is the traced error of \<open>DeadIPAddresses\<close>, and no goroutine is started.
\<close>

theorem SetUp_returns_watcher_with_error:
  assumes "WatchIPAddresses st = (w, st1)" and "DeadIPAddresses st1 = Inl e"
  shows "SetUp st = ((Some w, Some (Traced e), None), st1)
       \<and> w = watchers st \<and> watchers st1 = Suc w"
  using assms by (auto simp: SetUp_def WatchIPAddresses_def)

theorem SetUp_returns_watcher_with_error_witness:
  "SetUp (testWorld\<lparr>faults := [CallDeadIPAddresses]\<rparr>) =
     ((Some 0, Some (Traced (StorageUnavailable ''DeadIPAddresses'')), None),
      testWorld\<lparr>faults := [CallDeadIPAddresses], watchers := 1\<rparr>)"
proof -
  let ?st = "testWorld\<lparr>faults := [CallDeadIPAddresses]\<rparr>"
  let ?st1 = "testWorld\<lparr>faults := [CallDeadIPAddresses], watchers := 1\<rparr>"
  have a: "WatchIPAddresses ?st = (0, ?st1)"
    by (simp add: WatchIPAddresses_def testWorld_def)
  have b: "DeadIPAddresses ?st1 = Inl (StorageUnavailable ''DeadIPAddresses'')"
    by (simp add: DeadIPAddresses_def unavailable_def testWorld_def)
  from SetUp_returns_watcher_with_error [OF a b] show ?thesis by simp
qed

subsection \<open>One batch\<close>

text \<open>
  Claim C2: if the provider's release fails for one address of a batch, the failure is
  logged, the address is retained, and the worker goes on with the following ids and
  batches instead of terminating with an error.

  The code retains the address, and does nothing else of that. With a provider that
  fails for \<open>0.1.2.4\<close> only, \<open>Handle\<close> on the batch of the two dead addresses returns the
  annotated provider error at \<open>0.1.2.4\<close>; \<open>0.1.2.6\<close>, which the same provider releases when
  it is handled alone, is not looked at; and the logger has received nothing.
\<close>

theorem Handle_returns_provider_error:
  "Handle (brokenFor ''0.1.2.4'') testWorld [''0.1.2.4'', ''0.1.2.6''] =
     (Some (annotate (ProviderError ''dummy.ReleaseAddress is broken'')),
      testWorld\<lparr>ops := [((''foo'', ''foobar'', ''0.1.2.4''),
                          Some (ProviderError ''dummy.ReleaseAddress is broken''))]\<rparr>)
   \<and> Handle (brokenFor ''0.1.2.4'') testWorld [''0.1.2.6''] =
     (None,
      testWorld\<lparr>ipaddresses := [testAddress ''0.1.2.3'' Alive, testAddress ''0.1.2.4'' Dead,
                                testAddress ''0.1.2.5'' Alive],
                ops := [((''foo'', ''foobar'', ''0.1.2.6''), None)]\<rparr>)
   \<and> warnings (snd (Handle (brokenFor ''0.1.2.4'') testWorld [''0.1.2.4'', ''0.1.2.6''])) = []"
  by (simp add: worker_defs)

text \<open>
  Claim C3, as the specification states it: a "not found" when \<open>Handle\<close> fetches an id again
  is not an error; the id is skipped and \<open>Handle\<close> goes on with the remaining ids.

  It fails on the code: \<open>Handle\<close> returns whatever error the fetch gives. On a batch that
  names an address the store does not hold and then a dead one, \<open>Handle\<close> returns the
  not-found error and leaves the dead address where it is.
\<close>

theorem Handle_not_found_is_returned:
  "Handle working testWorld [''0.1.2.9'', ''0.1.2.4'']
     = (Some (NotFound ''IP address 0.1.2.9''), testWorld)"
  by (simp add: worker_defs)

text \<open>
  Claim C3, amended: for every id of a batch, an error of the fetch of that id, "not
  found" included, ends \<open>Handle\<close>: when the ids before it have been handled without error,
  \<open>Handle\<close> returns that error, and the ids after it are not handled (the world is the
  one that the ids before it left).
\<close>

theorem Handle_returns_fetch_error:
  assumes "Handle rel st pre = (None, st1)" and "IPAddress st1 x = Inl e"
  shows "Handle rel st (pre @ x # rest) = (Some e, st1)"
  using assms by (simp add: Handle_append)

theorem Handle_returns_fetch_error_witness:
  "Handle working testWorld ([''0.1.2.3''] @ ''0.1.2.9'' # [''0.1.2.4''])
     = (Some (NotFound ''IP address 0.1.2.9''), testWorld)"
proof -
  have a: "Handle working testWorld [''0.1.2.3''] = (None, testWorld)"
    by (simp add: worker_defs)
  have b: "IPAddress testWorld ''0.1.2.9'' = Inl (NotFound ''IP address 0.1.2.9'')"
    by (simp add: worker_defs)
  show ?thesis by (rule Handle_returns_fetch_error [OF a b])
qed

subsection \<open>Release before removal\<close>

text \<open>
  Claim C4: a dead address is removed from the store only if the provider's
  \<open>ReleaseAddress\<close> call reported success; if the call fails, the address is left untouched
  in the store (still resolvable, nothing of the store changed) and the error is
  returned instead of the removal being performed.

  First part: whenever \<open>removeIPAddress\<close> changes the addresses of the store, the provider
  has answered the call for this address with success. Second part: whenever the
  machine and its instance id are found and the provider answers with an error, the
  result is that error, annotated, the world differs from the one before in the
  provider's record only, and every id resolves as before.
\<close>

theorem removeIPAddress_removes_only_after_release:
  assumes "removeIPAddress rel st addr = (r, st')"
  shows "(ipaddresses st' \<noteq> ipaddresses st \<longrightarrow>
           (\<exists>i. rel (ops st) (i, SubnetId addr, Value addr) = None
               \<and> ops st' = ops st @ [((i, SubnetId addr, Value addr), None)]))
       \<and> (\<forall>m i e. Machine st (MachineId addr) = Inr m \<and> InstanceId st m = Inr i
                  \<and> rel (ops st) (i, SubnetId addr, Value addr) = Some e \<longrightarrow>
             r = Some (annotate e)
           \<and> st' = st\<lparr>ops := ops st @ [((i, SubnetId addr, Value addr), Some e)]\<rparr>
           \<and> (\<forall>x. IPAddress st' x = IPAddress st x))"
  using assms
  by (auto simp: removeIPAddress_def ReleaseAddress_def Remove_def Let_def IPAddress_def
      unavailable_def split: sum.splits option.splits if_splits prod.splits)

theorem removeIPAddress_removes_only_after_release_witness:
  "fst (removeIPAddress broken testWorld (testAddress ''0.1.2.4'' Dead))
     = Some (annotate (ProviderError ''dummy.ReleaseAddress is broken''))
   \<and> IPAddress (snd (removeIPAddress broken testWorld (testAddress ''0.1.2.4'' Dead))) ''0.1.2.4''
     = Inr (testAddress ''0.1.2.4'' Dead)
   \<and> ops (snd (removeIPAddress working testWorld (testAddress ''0.1.2.4'' Dead)))
     = [((''foo'', ''foobar'', ''0.1.2.4''), None)]"
proof -
  let ?a = "testAddress ''0.1.2.4'' Dead"
  let ?m = "\<lparr>machineId = ''0'', instanceId = Some ''foo''\<rparr>"
  let ?e = "ProviderError ''dummy.ReleaseAddress is broken''"
  obtain r s where h: "removeIPAddress broken testWorld ?a = (r, s)"
    by (cases "removeIPAddress broken testWorld ?a")
  have pre: "Machine testWorld (MachineId ?a) = Inr ?m \<and> InstanceId testWorld ?m = Inr ''foo''
           \<and> broken (ops testWorld) (''foo'', SubnetId ?a, Value ?a) = Some ?e"
    by (simp add: worker_defs)
  from removeIPAddress_removes_only_after_release [OF h] pre
  have failed: "r = Some (annotate ?e) \<and> (\<forall>x. IPAddress s x = IPAddress testWorld x)"
    by blast
  have still: "IPAddress testWorld ''0.1.2.4'' = Inr ?a"
    by (simp add: worker_defs)
  obtain r' s' where h': "removeIPAddress working testWorld ?a = (r', s')"
    by (cases "removeIPAddress working testWorld ?a")
  have changed: "ipaddresses s' \<noteq> ipaddresses testWorld"
    using h' by (auto simp: worker_defs)
  from removeIPAddress_removes_only_after_release [OF h'] changed
  obtain i where "ops s' = ops testWorld @ [((i, SubnetId ?a, Value ?a), None)]"
    by blast
  moreover have "ops s' = [((''foo'', ''foobar'', ''0.1.2.4''), None)]"
    using h' by (auto simp: worker_defs)
  ultimately show ?thesis using failed still h h' by simp
qed

subsection \<open>No second release\<close>







section \<open>Properties of the facade\<close>

lemmas facade_defs =
  perItem_def ParseTag_def resolve_def parentOf_def label_def tagString_def
  LifeOp_def RemoveOp_def EnsureDeadOp_def DestroyOp_def
  WatchContainers_def WatchContainersOp_def WatchEnvironMachines_def watchAndRegister_def
  subscribe_def receive_def Register_def Count_def Get_def Let_def
  testFacade_def testFacadeContainers_def testMachine_def testContainer_def
  testRefs_def testAgentRefs_def testWatchItems_def

lemma decimal_1 [simp]: "decimal (Suc 0) = ''1''"
  by (subst decimal.simps) simp

lemma decimal_2 [simp]: "decimal (Suc (Suc 0)) = ''2''"
  by (subst decimal.simps) simp

subsection \<open>The model on the scenarios of the test suite\<close>

text \<open>
  The model gives the results that \<open>TestLifeAsEnvironManager\<close>, \<open>TestLifeAsMachineAgent\<close>,
  \<open>TestRemove\<close>, \<open>TestWatchContainers\<close> and \<open>TestWatchEnvironMachines\<close> expect.
\<close>

lemma TestLifeAsEnvironManager:
  "fst (bulk EnvironManager LifeOp testFacade testRefs) =
     [Inr Alive, Inr Dead, Inr Alive, Inl (NotFound ''machine 42''), Inl Unauthorized, Inl Unauthorized]"
  by (simp add: facade_defs)

lemma TestLifeAsMachineAgent:
  "fst (bulk (MachineAgent (Tag MachineKind ''0'')) LifeOp testFacadeContainers testAgentRefs) =
     [Inr Dead, Inl Unauthorized, Inr Alive, Inr Dead, Inr Alive,
      Inl Unauthorized, Inl Unauthorized, Inl Unauthorized]"
  by (simp add: facade_defs)

lemma TestRemove:
  "bulk EnvironManager RemoveOp testFacade testRefs =
     ([Inl (StillAlive ''machine-0''), Inr (), Inl (StillAlive ''machine-2''),
       Inl (NotFound ''machine 42''), Inl Unauthorized, Inl Unauthorized],
      testFacade\<lparr>entities := [testMachine ''0'' Alive, testMachine ''2'' Alive]\<rparr>)"
  by (simp add: facade_defs)

lemma TestWatchContainers:
  "WatchContainers EnvironManager testFacade testWatchItems =
     ([Inr (''1'', []), Inr (''2'', []), Inl (NotFound ''machine 42''),
       Inl Unauthorized, Inl Unauthorized],
      testFacade\<lparr>resources := \<lparr>nextId = 2, live = [(''1'', \<lparr>pending = []\<rparr>), (''2'', \<lparr>pending = []\<rparr>)]\<rparr>\<rparr>)"
  by (simp add: facade_defs)

lemma TestWatchEnvironMachines:
  "WatchEnvironMachines EnvironManager testFacade =
     (Inr (''1'', [''0'', ''1'', ''2'']),
      testFacade\<lparr>resources := \<lparr>nextId = 1, live = [(''1'', \<lparr>pending = []\<rparr>)]\<rparr>\<rparr>)
   \<and> WatchEnvironMachines (MachineAgent (Tag MachineKind ''0'')) testFacade = (Inl Unauthorized, testFacade)"
  by (simp add: facade_defs)

subsection \<open>Batches\<close>

lemma bulk_Cons_fst:
  "fst (bulk p oper st (x # xs))
     = fst (perItem p oper st x) # fst (bulk p oper (snd (perItem p oper st x)) xs)"
  by (simp split: prod.splits)

lemma bulk_Cons_snd:
  "snd (bulk p oper st (x # xs)) = snd (bulk p oper (snd (perItem p oper st x)) xs)"
  by (simp split: prod.splits)

lemma bulk_length: "length (fst (bulk p oper st items)) = length items"
  by (induction items arbitrary: st) (simp_all add: bulk_Cons_fst del: bulk.simps(2))

lemma bulk_append_fst:
  "fst (bulk p oper st (xs @ ys))
     = fst (bulk p oper st xs) @ fst (bulk p oper (snd (bulk p oper st xs)) ys)"
  by (induction xs arbitrary: st) (simp_all add: bulk_Cons_fst bulk_Cons_snd del: bulk.simps(2))

lemma bulk_append_snd:
  "snd (bulk p oper st (xs @ ys)) = snd (bulk p oper (snd (bulk p oper st xs)) ys)"
  by (induction xs arbitrary: st) (simp_all add: bulk_Cons_snd del: bulk.simps(2))

lemma bulk_nth:
  "i < length items \<Longrightarrow>
     fst (bulk p oper st items) ! i
       = fst (perItem p oper (snd (bulk p oper st (take i items))) (items ! i))"
proof (induction items arbitrary: st i)
  case Nil
  then show ?case by simp
next
  case (Cons x xs)
  show ?case
  proof (cases i)
    case 0
    then show ?thesis by (simp add: bulk_Cons_fst del: bulk.simps(2))
  next
    case (Suc j)
    then have "j < length xs" using Cons.prems by simp
    from Cons.IH [OF this] show ?thesis using Suc
      by (simp add: bulk_Cons_fst bulk_Cons_snd del: bulk.simps(2))
  qed
qed

lemma bulk_skip:
  assumes "snd (perItem p oper (snd (bulk p oper st xs)) y) = snd (bulk p oper st xs)"
  shows "fst (bulk p oper st (xs @ y # zs))
       = fst (bulk p oper st xs) @ fst (perItem p oper (snd (bulk p oper st xs)) y)
           # drop (length xs) (fst (bulk p oper st (xs @ zs)))"
  using assms
  by (simp add: bulk_append_fst bulk_Cons_fst bulk_length del: bulk.simps(2))

text \<open>
  An item that the pipeline rejects before the operation (malformed reference, caller
  not authorized, entity not found) leaves the store as it is.
\<close>

lemma perItem_rejected_keeps_store:
  assumes "ParseTag (fst item) = None
         \<or> (\<exists>t. ParseTag (fst item) = Some t \<and> (\<not> authorized p st t \<or> resolve st t = None))"
  shows "snd (perItem p oper st item) = st \<and> isl (fst (perItem p oper st item))"
  using assms by (auto simp: perItem_def split: option.splits)

text \<open>
  Claim C6: for every batched operation of the facade and every list of items, the list
  of results is as long as the list of items, the results stand in input order, and the
  failure of one item neither aborts nor reorders the results of the others.

  The slot at position \<open>i\<close> is the result of the per-item pipeline on item \<open>i\<close>, run on the
  store that the items before it left. An item that leaves the store as it found it,
  as every item does that fails with a validation, unauthorized or not-found error,
  has no effect on the other slots: they are the slots of the batch without it.
\<close>

theorem bulk_results_aligned:
  "length (fst (bulk p oper st items)) = length items
   \<and> (\<forall>i<length items.
        fst (bulk p oper st items) ! i
          = fst (perItem p oper (snd (bulk p oper st (take i items))) (items ! i)))
   \<and> (\<forall>xs y zs. items = xs @ y # zs
         \<and> snd (perItem p oper (snd (bulk p oper st xs)) y) = snd (bulk p oper st xs) \<longrightarrow>
        fst (bulk p oper st items)
          = fst (bulk p oper st xs) @ fst (perItem p oper (snd (bulk p oper st xs)) y)
              # drop (length xs) (fst (bulk p oper st (xs @ zs))))"
  using bulk_length bulk_nth bulk_skip by blast


theorem bulk_results_aligned_witness:
  "length (fst (bulk EnvironManager RemoveOp testFacade testRefs)) = 6
   \<and> fst (bulk EnvironManager RemoveOp testFacade testRefs) ! 1 = Inr ()
   \<and> fst (bulk EnvironManager RemoveOp testFacade testRefs)
       = [Inl (StillAlive ''machine-0''), Inr (), Inl (StillAlive ''machine-2'')]
         @ Inl (NotFound ''machine 42'') # [Inl Unauthorized, Inl Unauthorized]"
proof -
  note all = bulk_results_aligned [of EnvironManager RemoveOp testFacade testRefs]
  let ?xs = "map (\<lambda>r. (r, ())) [''machine-0'', ''machine-1'', ''machine-2'']"
  let ?y = "(''machine-42'', ())"
  let ?zs = "map (\<lambda>r. (r, ())) [''unit-foo-0'', ''service-bar'']"
  have len: "length testRefs = 6" by (simp add: testRefs_def)
  from all have a: "length (fst (bulk EnvironManager RemoveOp testFacade testRefs)) = 6"
    using len by simp
  from all len
  have "fst (bulk EnvironManager RemoveOp testFacade testRefs) ! 1
          = fst (perItem EnvironManager RemoveOp
                   (snd (bulk EnvironManager RemoveOp testFacade (take 1 testRefs)))
                   (testRefs ! 1))"
    by simp
  then have b: "fst (bulk EnvironManager RemoveOp testFacade testRefs) ! 1 = Inr ()"
    by (simp add: facade_defs)
  have split: "testRefs = ?xs @ ?y # ?zs" by (simp add: testRefs_def)
  have same: "snd (perItem EnvironManager RemoveOp
                     (snd (bulk EnvironManager RemoveOp testFacade ?xs)) ?y)
                = snd (bulk EnvironManager RemoveOp testFacade ?xs)"
    by (simp add: facade_defs)
  from all split same
  have "fst (bulk EnvironManager RemoveOp testFacade testRefs)
          = fst (bulk EnvironManager RemoveOp testFacade ?xs)
            @ fst (perItem EnvironManager RemoveOp
                     (snd (bulk EnvironManager RemoveOp testFacade ?xs)) ?y)
              # drop (length ?xs) (fst (bulk EnvironManager RemoveOp testFacade (?xs @ ?zs)))"
    by blast
  then have c: "fst (bulk EnvironManager RemoveOp testFacade testRefs)
       = [Inl (StillAlive ''machine-0''), Inr (), Inl (StillAlive ''machine-2'')]
         @ Inl (NotFound ''machine 42'') # [Inl Unauthorized, Inl Unauthorized]"
    by (simp add: facade_defs)
  show ?thesis using a b c by blast
qed

subsection \<open>Authorization\<close>

lemma ParseTag_tagString:
  assumes a: "ParseTag s = Some t"
  shows "tagString t = s"
proof -
  let ?P = "\<lambda>c. c \<noteq> CHR ''-''"
  let ?k = "takeWhile ?P s"
  let ?i = "drop (Suc (length ?k)) s"
  from a have ne: "?i \<noteq> []"
    by (auto simp: ParseTag_def Let_def split: if_splits)
  then have n: "length ?k < length s" by simp
  have c: "s ! length ?k = CHR ''-''"
    using nth_length_takeWhile [OF n] by simp
  have t: "take (length ?k) s = ?k"
    by (rule takeWhile_eq_take [symmetric])
  have s: "s = ?k @ CHR ''-'' # ?i"
    by (metis t c id_take_nth_drop [OF n])
  from a have "tagString t = ?k @ CHR ''-'' # ?i"
    by (auto simp: ParseTag_def Let_def tagString_def split: if_splits)
  with s show ?thesis by simp
qed




subsection \<open>Removal\<close>

lemma map_of_filter_out: "map_of (filter (\<lambda>(k, v). k \<noteq> t) es) t = None"
  by (induction es) auto

text \<open>
  Claim C8: the facade's \<open>Remove\<close> succeeds for an entity if and only if the life of the
  entity is \<open>Dead\<close>; otherwise the slot fails with a still-alive error that names the
  entity and the store is unchanged; after a successful \<open>Remove\<close> the entity is
  unresolvable.

  The item is one that reaches the operation: its reference parses, the caller is
  authorized for it and the entity exists. The error carries the reference as the caller
  wrote it.
\<close>

theorem Remove_succeeds_iff_Dead:
  assumes "ParseTag ref = Some t" and "authorized p st t" and "resolve st t = Some e"
  shows "(fst (perItem p RemoveOp st (ref, ())) = Inr () \<longleftrightarrow> entityLife e = Dead)
       \<and> (entityLife e \<noteq> Dead \<longrightarrow>
            perItem p RemoveOp st (ref, ()) = (Inl (StillAlive ref), st))
       \<and> (entityLife e = Dead \<longrightarrow>
            resolve (snd (perItem p RemoveOp st (ref, ()))) t = None)"
  using assms ParseTag_tagString [OF assms(1)]
  by (auto simp: perItem_def RemoveOp_def resolve_def map_of_filter_out)

theorem Remove_succeeds_iff_Dead_witness:
  "perItem EnvironManager RemoveOp testFacade (''machine-0'', ())
     = (Inl (StillAlive ''machine-0''), testFacade)
   \<and> fst (perItem EnvironManager RemoveOp testFacade (''machine-1'', ())) = Inr ()
   \<and> resolve (snd (perItem EnvironManager RemoveOp testFacade (''machine-1'', ())))
        (Tag MachineKind ''1'') = None"
proof -
  have p0: "ParseTag ''machine-0'' = Some (Tag MachineKind ''0'')"
    and p1: "ParseTag ''machine-1'' = Some (Tag MachineKind ''1'')"
    by (simp_all add: ParseTag_def)
  have a0: "authorized EnvironManager testFacade (Tag MachineKind ''0'')"
    and a1: "authorized EnvironManager testFacade (Tag MachineKind ''1'')"
    by (simp_all add: facade_defs)
  have r0: "resolve testFacade (Tag MachineKind ''0'') = Some (snd (testMachine ''0'' Alive))"
    and r1: "resolve testFacade (Tag MachineKind ''1'') = Some (snd (testMachine ''1'' Dead))"
    by (simp_all add: facade_defs)
  have l0: "entityLife (snd (testMachine ''0'' Alive)) \<noteq> Dead"
    and l1: "entityLife (snd (testMachine ''1'' Dead)) = Dead"
    by (simp_all add: testMachine_def)
  from Remove_succeeds_iff_Dead [OF p0 a0 r0] l0 Remove_succeeds_iff_Dead [OF p1 a1 r1] l1
  show ?thesis by blast
qed


subsection \<open>Watch registrations\<close>

lemma watchAndRegister_subscribe:
  "watchAndRegister st (subscribe st scope) =
     (Inr (decimal (Suc (nextId (resources st))),
           map (\<lambda>(k, v). tagId k) (filter (\<lambda>(k, v). scope k v) (entities st))),
      st\<lparr>resources := (resources st)
             \<lparr>nextId := Suc (nextId (resources st)),
              live := live (resources st)
                        @ [(decimal (Suc (nextId (resources st))), \<lparr>pending = []\<rparr>)]\<rparr>\<rparr>)"
  by (simp add: watchAndRegister_def subscribe_def receive_def Register_def Let_def)

lemma perItem_watch:
  "perItem p WatchContainersOp st item = (r, st') \<Longrightarrow>
     (isl r \<and> st' = st)
   \<or> (\<not> isl r \<and> entities st' = entities st
       \<and> (\<exists>h. live (resources st') = live (resources st) @ [(h, \<lparr>pending = []\<rparr>)]))"
  by (auto simp: perItem_def WatchContainersOp_def watchAndRegister_subscribe
      split: option.splits if_splits)

lemma bulk_watch:
  "Count (resources (snd (bulk p WatchContainersOp st items)))
     = Count (resources st)
       + length (filter (\<lambda>r. \<not> isl r) (fst (bulk p WatchContainersOp st items)))
   \<and> (\<exists>new. live (resources (snd (bulk p WatchContainersOp st items)))
               = live (resources st) @ new
           \<and> list_all silent new)"
proof (induction items arbitrary: st)
  case Nil
  then show ?case by simp
next
  case (Cons x xs)
  obtain r st1 where h: "perItem p WatchContainersOp st x = (r, st1)"
    by (cases "perItem p WatchContainersOp st x")
  from Cons.IH [of st1] obtain new where
    c: "Count (resources (snd (bulk p WatchContainersOp st1 xs)))
          = Count (resources st1)
            + length (filter (\<lambda>r. \<not> isl r) (fst (bulk p WatchContainersOp st1 xs)))"
    and n: "live (resources (snd (bulk p WatchContainersOp st1 xs))) = live (resources st1) @ new"
           "list_all silent new"
    by blast
  from perItem_watch [OF h] show ?case
  proof
    assume "isl r \<and> st1 = st"
    then show ?thesis using h c n
      by (auto simp: bulk_Cons_fst bulk_Cons_snd simp del: bulk.simps(2))
  next
    assume a: "\<not> isl r \<and> entities st1 = entities st
       \<and> (\<exists>h. live (resources st1) = live (resources st) @ [(h, \<lparr>pending = []\<rparr>)])"
    then obtain hd where l: "live (resources st1) = live (resources st) @ [(hd, \<lparr>pending = []\<rparr>)]"
      by blast
    have s: "silent (hd, \<lparr>pending = []\<rparr>)" by (simp add: silent_def receive_def)
    have "live (resources (snd (bulk p WatchContainersOp st (x # xs))))
            = live (resources st) @ ((hd, \<lparr>pending = []\<rparr>) # new)"
      using h n l by (simp add: bulk_Cons_snd del: bulk.simps(2))
    moreover have "list_all silent ((hd, \<lparr>pending = []\<rparr>) # new)" using s n by simp
    moreover have "Count (resources (snd (bulk p WatchContainersOp st (x # xs))))
     = Count (resources st)
       + length (filter (\<lambda>r. \<not> isl r) (fst (bulk p WatchContainersOp st (x # xs))))"
      using h c a l by (simp add: bulk_Cons_fst bulk_Cons_snd Count_def del: bulk.simps(2))
    ultimately show ?thesis by blast
  qed
qed

text \<open>
  Claim C9, as the specification states it: every \<open>Watch*\<close> call of the facade increases the
  live count of the resource registry by exactly one.

  It fails on \<open>WatchContainers\<close>, which is batched: the call of \<open>TestWatchContainers\<close> has two
  items that succeed, and takes the count from 0 to 2 (the test asserts both counts).
\<close>

theorem WatchContainers_registers_two:
  "Count (resources testFacade) = 0
   \<and> Count (resources (snd (WatchContainers EnvironManager testFacade testWatchItems))) = 2"
  by (simp add: facade_defs)

text \<open>
  Claim C9, amended: every watch registration that succeeds, that is a successful
  \<open>WatchEnvironMachines\<close> call or a successful slot of a \<open>WatchContainers\<close> call, increases the
  live count of the registry by exactly one, and a call or slot that fails registers
  nothing; the first batch of the subscription is returned in the response, and the
  watcher that is registered delivers nothing on the next receive.

  For \<open>WatchContainers\<close> the count grows by the number of successful slots, the registry
  is extended by watchers that deliver nothing on the next receive, and the changes of
  a successful slot are the first batch of the subscription for that machine.
\<close>

theorem watch_registration_counts:
  "(\<forall>h changes st'. WatchEnvironMachines p st = (Inr (h, changes), st') \<longrightarrow>
       Count (resources st') = Suc (Count (resources st))
     \<and> pending (subscribe st (\<lambda>k v. tagKind k = MachineKind \<and> parent v = None)) = [changes]
     \<and> (\<exists>w. live (resources st') = live (resources st) @ [(h, w)] \<and> fst (receive w) = None))
   \<and> (\<forall>e st'. WatchEnvironMachines p st = (Inl e, st') \<longrightarrow> st' = st)
   \<and> Count (resources (snd (WatchContainers p st items)))
       = Count (resources st)
         + length (filter (\<lambda>r. \<not> isl r) (fst (WatchContainers p st items)))
   \<and> (\<exists>new. live (resources (snd (WatchContainers p st items))) = live (resources st) @ new
           \<and> list_all silent new)
   \<and> (\<forall>item h changes st'.
         perItem p WatchContainersOp st item = (Inr (h, changes), st') \<longrightarrow>
           (\<exists>t. ParseTag (fst item) = Some t
              \<and> pending (subscribe st (\<lambda>k v. parent v = Some t \<and> containerType v = snd item))
                  = [changes]))"
proof -
  have a: "\<forall>h changes st'. WatchEnvironMachines p st = (Inr (h, changes), st') \<longrightarrow>
       Count (resources st') = Suc (Count (resources st))
     \<and> pending (subscribe st (\<lambda>k v. tagKind k = MachineKind \<and> parent v = None)) = [changes]
     \<and> (\<exists>w. live (resources st') = live (resources st) @ [(h, w)] \<and> fst (receive w) = None)"
    unfolding WatchEnvironMachines_def watchAndRegister_subscribe
    by (auto simp: Count_def subscribe_def receive_def split: if_splits)
  have b: "\<forall>e st'. WatchEnvironMachines p st = (Inl e, st') \<longrightarrow> st' = st"
    unfolding WatchEnvironMachines_def watchAndRegister_subscribe
    by (auto split: if_splits)
  have c: "\<forall>item h changes st'.
         perItem p WatchContainersOp st item = (Inr (h, changes), st') \<longrightarrow>
           (\<exists>t. ParseTag (fst item) = Some t
              \<and> pending (subscribe st (\<lambda>k v. parent v = Some t \<and> containerType v = snd item))
                  = [changes])"
    unfolding perItem_def WatchContainersOp_def watchAndRegister_subscribe
    by (auto simp: subscribe_def split: option.splits if_splits)
  have d: "Count (resources (snd (WatchContainers p st items)))
       = Count (resources st)
         + length (filter (\<lambda>r. \<not> isl r) (fst (WatchContainers p st items)))
   \<and> (\<exists>new. live (resources (snd (WatchContainers p st items))) = live (resources st) @ new
           \<and> list_all silent new)"
    unfolding WatchContainers_def by (rule bulk_watch)
  show ?thesis using a b c d by blast
qed

theorem watch_registration_counts_witness:
  "Count (resources (snd (WatchEnvironMachines EnvironManager testFacade)))
     = Suc (Count (resources testFacade))
   \<and> fst (WatchEnvironMachines EnvironManager testFacade) = Inr (''1'', [''0'', ''1'', ''2''])
   \<and> snd (WatchEnvironMachines (MachineAgent (Tag MachineKind ''0'')) testFacade) = testFacade
   \<and> Count (resources (snd (WatchContainers EnvironManager testFacade testWatchItems)))
     = Count (resources testFacade) + 2"
proof -
  have a: "WatchEnvironMachines EnvironManager testFacade =
     (Inr (''1'', [''0'', ''1'', ''2'']),
      testFacade\<lparr>resources := \<lparr>nextId = 1, live = [(''1'', \<lparr>pending = []\<rparr>)]\<rparr>\<rparr>)"
    by (simp add: facade_defs)
  have b: "WatchEnvironMachines (MachineAgent (Tag MachineKind ''0'')) testFacade
             = (Inl Unauthorized, testFacade)"
    by (simp add: facade_defs)
  from watch_registration_counts [of EnvironManager testFacade "[]"] a
  have "Count (resources (testFacade\<lparr>resources := \<lparr>nextId = 1, live = [(''1'', \<lparr>pending = []\<rparr>)]\<rparr>\<rparr>))
          = Suc (Count (resources testFacade))"
    by blast
  moreover from watch_registration_counts [of "MachineAgent (Tag MachineKind ''0'')" testFacade "[]"] b
  have "snd (WatchEnvironMachines (MachineAgent (Tag MachineKind ''0'')) testFacade) = testFacade"
    by simp
  moreover have "length (filter (\<lambda>r. \<not> isl r)
                   (fst (WatchContainers EnvironManager testFacade testWatchItems))) = 2"
    by (simp add: facade_defs)
  with watch_registration_counts [of EnvironManager testFacade testWatchItems]
  have "Count (resources (snd (WatchContainers EnvironManager testFacade testWatchItems)))
          = Count (resources testFacade) + 2"
    by simp
  ultimately show ?thesis using a by simp
qed


end
